theory Spec2Isabelle
  imports Main "HOL-Library.Sublist"
begin

section \<open>The update engine of udd (src/mod.ts)\<close>

text \<open>
  The file being updated is modelled by its decoded text, a \<open>string\<close>; every function
  that reads or writes the file takes the text and returns the new text. Reading and
  writing are assumed to succeed. Progress logging has no effect on the file or on the
  outcomes and is left out.
\<close>

subsection \<open>JavaScript string primitives used by the source\<close>

text \<open>
  \<open>String.prototype.split\<close> with a string separator: the text is cut at the
  non-overlapping occurrences of the separator, scanned from the left. An empty separator
  cuts the text into its single characters. \<open>acc\<close> holds, reversed, the characters
  read since the last cut.
\<close>

function split_from :: "string \<Rightarrow> string \<Rightarrow> string \<Rightarrow> string list" where
  "split_from sep acc [] = [rev acc]"
| "split_from sep acc (c # cs) =
     (if sep \<noteq> [] \<and> prefix sep (c # cs)
      then rev acc # split_from sep [] (drop (length sep) (c # cs))
      else split_from sep (c # acc) cs)"
  by pat_completeness auto
termination
  by (relation "measure (\<lambda>(sep, acc, s). length s)") (auto simp: neq_Nil_conv)

definition split :: "string \<Rightarrow> string \<Rightarrow> string list" where
  "split sep s = (if sep = [] then map (\<lambda>c. [c]) s else split_from sep [] s)"

text \<open>\<open>Array.prototype.join\<close> on an array of strings.\<close>

fun join :: "string \<Rightarrow> string list \<Rightarrow> string" where
  "join sep [] = []"
| "join sep [x] = x"
| "join sep (x # y # ys) = x @ sep @ join sep (y # ys)"

text \<open>\<open>s.includes(c)\<close> for a one-character needle.\<close>

definition includes_char :: "string \<Rightarrow> char \<Rightarrow> bool" where
  "includes_char s c = List.member s c"

text \<open>
  A value that may be \<open>undefined\<close> is an option; \<open>js_string\<close> is the conversion that
  string concatenation and template literals apply to it.
\<close>

definition js_string :: "string option \<Rightarrow> string" where
  "js_string v = (case v of None \<Rightarrow> ''undefined'' | Some s \<Rightarrow> s)"

subsection \<open>Data\<close>

datatype error = TypeError | SyntaxError string | OtherError string

text \<open>
  The validation callback has type \<open>() => Promise<void>\<close>; it is modelled by what the
  promise it returns does, which is what \<open>.then(...).catch(...)\<close> of line 180 observes:
  it resolves or it rejects.
\<close>

datatype promise = Resolves | Rejects

record UddResult =
  initUrl :: string
  initVersion :: string
  message :: "string option"
  success :: "bool option"

text \<open>
  \<open>UddOptions\<close>: \<open>dryRun\<close> is a flag (absent counts as false); \<open>test\<close> is the optional
  validation callback, which may inspect the file as it stands when it is called.
\<close>

record UddOptions =
  dryRun :: bool
  test :: "(string \<Rightarrow> promise) option"

text \<open>
  A parsed version. The source reads only its \<open>version\<close> field; the other fields are
  those of the specification's data model.
\<close>

record Semver =
  version :: string
  major :: nat
  minor :: nat
  patch :: nat
  prerelease :: "string list"
  build :: "string list"

type_synonym Filter = "Semver \<Rightarrow> bool"

text \<open>
  A \<open>RegistryUrl\<close> object (declared in registry.ts, implemented per provider): the
  mutable field \<open>url\<close> and the three methods, each a function of the object's current
  \<open>url\<close>. \<open>at_fn u v\<close> is the \<open>url\<close> of the object that \<open>at(v)\<close> returns; the argument
  may be \<open>undefined\<close> at run time. \<open>all_fn\<close> is the awaited result of \<open>all()\<close>, which
  may raise.
\<close>

record RegistryUrl =
  url :: string
  version_fn :: "string \<Rightarrow> string"
  all_fn :: "string \<Rightarrow> error + string list"
  at_fn :: "string \<Rightarrow> string option \<Rightarrow> string"

text \<open>
  The functions that src/mod.ts imports from modules outside src/ are parameters of the
  model:
  \<^item> \<open>importUrls\<close> (search.ts) and \<open>lookup\<close> (registry.ts), with the registry list
    already applied;
  \<^item> \<open>semver\<close> (semver.ts): \<open>None\<close> is \<open>undefined\<close>; the constructor \<open>new Semver(s)\<close>
    raises exactly when \<open>semver s\<close> is \<open>undefined\<close>;
  \<^item> \<open>fragment\<close> (semver.ts): raises, or returns a filter or \<open>undefined\<close>;
  \<^item> \<open>getPrereleaseVersion\<close> (deps.ts): \<open>None\<close> is \<open>null\<close>;
  \<^item> \<open>yellow\<close> (\<open>colors.yellow\<close> of deps.ts).
\<close>

record deps =
  importUrls :: "string \<Rightarrow> string list"
  lookup :: "string \<Rightarrow> RegistryUrl option"
  semver :: "string \<Rightarrow> Semver option"
  fragment :: "string \<Rightarrow> string \<Rightarrow> error + Filter option"
  getPrereleaseVersion :: "string \<Rightarrow> string list option"
  yellow :: "string \<Rightarrow> string"

subsection \<open>\<open>Udd.replace\<close> and \<open>Udd.maybeReplace\<close>\<close>

text \<open>The constructor's \<open>this.test = options.test || (async () => undefined)\<close>.\<close>

definition this_test :: "UddOptions \<Rightarrow> string \<Rightarrow> promise" where
  "this_test opts = (case test opts of None \<Rightarrow> (\<lambda>content. Resolves) | Some t \<Rightarrow> t)"

text \<open>\<open>replace(left, right)\<close>: the file's text before, the file's text after.\<close>

definition replace :: "string \<Rightarrow> string \<Rightarrow> string \<Rightarrow> string" where
  "replace left right content = join right (split left content)"

text \<open>\<open>maybeReplace\<close> returns \<open>failed\<close> and leaves the file with the second component.\<close>

definition maybeReplace ::
  "UddOptions \<Rightarrow> RegistryUrl \<Rightarrow> string option \<Rightarrow> string \<Rightarrow> string \<Rightarrow> bool \<times> string" where
  "maybeReplace opts r newVersion initUrl0 content =
     (let newUrl = at_fn r (url r) newVersion;
          written = replace initUrl0 newUrl content;
          failed = (this_test opts written = Rejects)
      in if failed then (True, replace newUrl initUrl0 written) else (False, written))"

subsection \<open>\<open>Udd.update\<close>\<close>

text \<open>The character class of line 88.\<close>

definition is_modifier :: "char \<Rightarrow> bool" where
  "is_modifier c = (c = CHR ''~'' \<or> c = CHR ''^'' \<or> c = CHR ''='' \<or> c = CHR ''<'')"

text \<open>
  Lines 88 to 91 for a non-empty version token \<open>c # rest\<close>: the new fragment token and
  the object with its \<open>url\<close> rewritten.
\<close>

definition newFragmentToken :: "RegistryUrl \<Rightarrow> char \<Rightarrow> string option" where
  "newFragmentToken r c =
     (if is_modifier c \<and> \<not> includes_char (url r) (CHR ''#'') then Some [c] else None)"

definition relocate :: "RegistryUrl \<Rightarrow> char \<Rightarrow> string \<Rightarrow> RegistryUrl" where
  "relocate r c rest =
     (if is_modifier c \<and> \<not> includes_char (url r) (CHR ''#'')
      then r\<lparr>url := at_fn r (url r) (Some rest) @ ''#'' @ [c]\<rparr>
      else r)"

text \<open>Lines 101 to 106: the list \<open>versions\<close> after the prerelease policy.\<close>

definition candidates :: "deps \<Rightarrow> string \<Rightarrow> string list \<Rightarrow> string list" where
  "candidates d initVersion0 versions =
     (if getPrereleaseVersion d initVersion0 \<noteq> None then versions
      else filter (\<lambda>v. getPrereleaseVersion d v = None) versions)"

text \<open>Lines 129 to 131.\<close>

definition compatible :: "deps \<Rightarrow> Filter \<Rightarrow> string list \<Rightarrow> string list" where
  "compatible d flt versions =
     map version (filter flt (map the (filter (\<lambda>x. x \<noteq> None) (map (semver d) versions))))"

text \<open>
  Lines 108 and 128 to 141: the target version, possibly \<open>undefined\<close>; \<open>Inl\<close> is the
  early return of line 133.
\<close>

definition chooseVersion :: "deps \<Rightarrow> Filter option \<Rightarrow> string list \<Rightarrow> unit + string option" where
  "chooseVersion d flt versions =
     (case flt of
        None \<Rightarrow> Inr (case versions of [] \<Rightarrow> None | v # _ \<Rightarrow> Some v)
      | Some f \<Rightarrow>
          (case compatible d f versions of
             [] \<Rightarrow> Inl ()
           | v # _ \<Rightarrow> Inr (Some v)))"

text \<open>
  Lines 143 to 168, for the object \<open>r1\<close> as it stands after line 91, the fragment token
  of line 89 and the target \<open>chosen\<close> by line 141: the outcome and the file's text
  afterwards.
\<close>

definition report ::
  "deps \<Rightarrow> UddOptions \<Rightarrow> RegistryUrl \<Rightarrow> string \<Rightarrow> string \<Rightarrow> string option \<Rightarrow> string option
     \<Rightarrow> string \<Rightarrow> UddResult \<times> string" where
  "report d opts r1 initUrl0 initVersion0 token chosen content =
     (let newVersion = (case token of None \<Rightarrow> chosen | Some t \<Rightarrow> Some (t @ js_string chosen))
      in if Some (version_fn r1 (url r1)) = newVersion \<and> token = None
         then (\<lparr>initUrl = initUrl0, initVersion = initVersion0,
                 message = None, success = None\<rparr>, content)
         else
           (case (if \<not> dryRun opts
                  then maybeReplace opts r1 newVersion initUrl0 content
                  else (False, content)) of
              (failed, content1) \<Rightarrow>
                (let maybeFragment = (case token of None \<Rightarrow> [] | Some t \<Rightarrow> ''#'' @ t)
                 in (\<lparr>initUrl = initUrl0, initVersion = initVersion0,
                       message = Some (js_string newVersion @ yellow d maybeFragment),
                       success = Some (\<not> failed)\<rparr>, content1))))"

text \<open>
  \<open>update\<close>: the outcome (or the error raised) and the file's text afterwards. Indexing
  the empty token at line 88 gives \<open>undefined\<close>, and calling \<open>match\<close> on it raises a
  TypeError.
\<close>

definition update ::
  "deps \<Rightarrow> UddOptions \<Rightarrow> RegistryUrl \<Rightarrow> string \<Rightarrow> (error + UddResult) \<times> string" where
  "update d opts r content =
     (let initUrl0 = url r;
          initVersion0 = version_fn r (url r)
      in case all_fn r (url r) of
           Inl e \<Rightarrow> (Inl e, content)
         | Inr versions \<Rightarrow>
             (case initVersion0 of
                [] \<Rightarrow> (Inl TypeError, content)
              | c # rest \<Rightarrow>
                  (let token = newFragmentToken r c;
                       r1 = relocate r c rest
                   in case semver d (version_fn r1 (url r1)) of
                        None \<Rightarrow>
                          (Inr \<lparr>initUrl = initUrl0, initVersion = initVersion0,
                                message = None, success = None\<rparr>, content)
                      | Some _ \<Rightarrow>
                          (let versions1 = candidates d initVersion0 versions
                           in case fragment d (url r1) (version_fn r1 (url r1)) of
                                Inl (SyntaxError m) \<Rightarrow>
                                  (Inr \<lparr>initUrl = initUrl0, initVersion = initVersion0,
                                        message = Some m, success = Some False\<rparr>, content)
                              | Inl e \<Rightarrow> (Inl e, content)
                              | Inr flt \<Rightarrow>
                                  (case chooseVersion d flt versions1 of
                                     Inl _ \<Rightarrow>
                                       (Inr \<lparr>initUrl = initUrl0, initVersion = initVersion0,
                                             message = Some ''no compatible version found'',
                                             success = Some False\<rparr>, content)
                                   | Inr chosen \<Rightarrow>
                                       (case report d opts r1 initUrl0 initVersion0 token chosen
                                               content of
                                          (res, content1) \<Rightarrow> (Inr res, content1)))))))"

subsection \<open>\<open>Udd.run\<close>\<close>

text \<open>
  The loop of lines 67 to 73 over the URLs found in the initial text; \<open>results\<close> is the
  array built so far. An error raised by \<open>update\<close> leaves the loop, and no array is
  returned; the file keeps what earlier iterations wrote.
\<close>

fun run_loop ::
  "deps \<Rightarrow> UddOptions \<Rightarrow> string list \<Rightarrow> UddResult list \<Rightarrow> string
     \<Rightarrow> (error + UddResult list) \<times> string" where
  "run_loop d opts [] results content = (Inr results, content)"
| "run_loop d opts (u # us) results content =
     (case lookup d u of
        None \<Rightarrow> run_loop d opts us results content
      | Some v \<Rightarrow>
          (case update d opts v content of
             (Inl e, content1) \<Rightarrow> (Inl e, content1)
           | (Inr res, content1) \<Rightarrow> run_loop d opts us (results @ [res]) content1))"

definition run :: "deps \<Rightarrow> UddOptions \<Rightarrow> string \<Rightarrow> (error + UddResult list) \<times> string" where
  "run d opts content = run_loop d opts (importUrls d content) [] content"

section \<open>Stand-ins for the modules outside src/\<close>

text \<open>
  The theorems below hold for every value of the parameters. To run the engine on concrete
  files, this section supplies one value for each parameter, written from the
  specification.
\<close>

subsection \<open>Semver model (specification 3 and 4.2)\<close>

text \<open>
  Modelled from the spec: the character classes and identifier shapes of the grammar
  \<open>MAJOR.MINOR.PATCH[-PRERELEASE][+BUILD]\<close> that semver.ts (not under src/) parses:
  numeric identifiers are digit strings without a leading zero, prerelease and build
  identifiers are non-empty strings of letters, digits and hyphens.
\<close>

definition is_digit :: "char \<Rightarrow> bool" where
  "is_digit c = (48 \<le> (of_char c :: nat) \<and> (of_char c :: nat) \<le> 57)"

definition is_ident_char :: "char \<Rightarrow> bool" where
  "is_ident_char c =
     (is_digit c \<or> c = CHR ''-'' \<or>
      (65 \<le> (of_char c :: nat) \<and> (of_char c :: nat) \<le> 90) \<or>
      (97 \<le> (of_char c :: nat) \<and> (of_char c :: nat) \<le> 122))"

definition nat_of_digits :: "string \<Rightarrow> nat" where
  "nat_of_digits s = foldl (\<lambda>n c. 10 * n + ((of_char c :: nat) - 48)) 0 s"

definition is_numeric :: "string \<Rightarrow> bool" where
  "is_numeric s =
     (case s of
        [] \<Rightarrow> False
      | c # cs \<Rightarrow> list_all is_digit s \<and> (if cs = [] then True else c \<noteq> CHR ''0''))"

definition is_prerelease_id :: "string \<Rightarrow> bool" where
  "is_prerelease_id s =
     (if list_all is_digit s then is_numeric s else list_all is_ident_char s)"

definition is_build_id :: "string \<Rightarrow> bool" where
  "is_build_id s = (if s = [] then False else list_all is_ident_char s)"

text \<open>
  Modelled from the spec: the parser of semver.ts is not under src/. The specification
  gives the grammar \<open>MAJOR.MINOR.PATCH[-PRERELEASE][+BUILD]\<close> and says that any other
  string fails to parse.
\<close>

definition spec_semver :: "string \<Rightarrow> Semver option" where
  "spec_semver s =
     (let front = takeWhile (\<lambda>c. c \<noteq> CHR ''+'') s;
          bld = dropWhile (\<lambda>c. c \<noteq> CHR ''+'') s;
          core = takeWhile (\<lambda>c. c \<noteq> CHR ''-'') front;
          pre = dropWhile (\<lambda>c. c \<noteq> CHR ''-'') front;
          nums = split ''.'' core;
          pre_ids = (if pre = [] then [] else split ''.'' (tl pre));
          bld_ids = (if bld = [] then [] else split ''.'' (tl bld))
      in if length nums = 3 \<and> list_all is_numeric nums \<and>
            list_all is_prerelease_id pre_ids \<and> list_all is_build_id bld_ids
         then Some \<lparr>version = s, major = nat_of_digits (nums ! 0),
                     minor = nat_of_digits (nums ! 1), patch = nat_of_digits (nums ! 2),
                     prerelease = pre_ids, build = bld_ids\<rparr>
         else None)"

text \<open>
  Modelled from the spec: \<open>getPrereleaseVersion\<close> comes from deps.ts, which is not under
  src/. The specification's \<open>isPrerelease\<close> reports whether a version string carries a
  prerelease component.
\<close>

definition spec_getPrereleaseVersion :: "string \<Rightarrow> string list option" where
  "spec_getPrereleaseVersion s =
     (case spec_semver s of
        None \<Rightarrow> None
      | Some v \<Rightarrow> (if prerelease v = [] then None else Some (prerelease v)))"

text \<open>
  Modelled from the spec: the order on versions of semver.ts (not under src/). The
  specification's data model gives it: numeric comparison of the three fields, a release
  above its prereleases, prerelease identifiers compared pairwise, numeric ones below
  alphanumeric ones, otherwise lexicographically.
\<close>

fun str_less :: "string \<Rightarrow> string \<Rightarrow> bool" where
  "str_less [] [] = False"
| "str_less [] (y # ys) = True"
| "str_less (x # xs) [] = False"
| "str_less (x # xs) (y # ys) =
     (if (of_char x :: nat) < of_char y then True
      else if (of_char y :: nat) < of_char x then False
      else str_less xs ys)"

definition id_less :: "string \<Rightarrow> string \<Rightarrow> bool" where
  "id_less a b =
     (if list_all is_digit a
      then (if list_all is_digit b then nat_of_digits a < nat_of_digits b else True)
      else (if list_all is_digit b then False else str_less a b))"

fun pre_less :: "string list \<Rightarrow> string list \<Rightarrow> bool" where
  "pre_less [] [] = False"
| "pre_less [] (y # ys) = True"
| "pre_less (x # xs) [] = False"
| "pre_less (x # xs) (y # ys) =
     (if id_less x y then True else if id_less y x then False else pre_less xs ys)"

definition sv_less :: "Semver \<Rightarrow> Semver \<Rightarrow> bool" where
  "sv_less a b =
     (if major a \<noteq> major b then major a < major b
      else if minor a \<noteq> minor b then minor a < minor b
      else if patch a \<noteq> patch b then patch a < patch b
      else if prerelease a = [] then False
      else if prerelease b = [] then True
      else pre_less (prerelease a) (prerelease b))"

subsection \<open>Constraint algebra (specification 4.3)\<close>

text \<open>
  Modelled from the spec: the four predicates of semver.ts (not under src/), with the
  semantics of the specification: \<open>=\<close> exact match; \<open>^\<close> same major when it is
  positive, else same minor when it is positive, else the same patch, and not below the
  given version; \<open>~\<close> same major and minor with a patch not below the given one;
  \<open><\<close> strictly below the given version.
\<close>

definition sv_eq :: "Semver \<Rightarrow> Filter" where
  "sv_eq v other = (\<not> sv_less v other \<and> \<not> sv_less other v)"

definition sv_caret :: "Semver \<Rightarrow> Filter" where
  "sv_caret v other =
     (if 0 < major v then major other = major v \<and> \<not> sv_less other v
      else if 0 < minor v then major other = 0 \<and> minor other = minor v \<and> \<not> sv_less other v
      else major other = 0 \<and> minor other = 0 \<and> patch other = patch v)"

definition sv_tilde :: "Semver \<Rightarrow> Filter" where
  "sv_tilde v other =
     (major other = major v \<and> minor other = minor v \<and> patch v \<le> patch other)"

definition sv_lt :: "Semver \<Rightarrow> Filter" where
  "sv_lt v other = sv_less other v"

text \<open>
  Modelled from the spec: \<open>fragment\<close> of semver.ts is not under src/. The fragment is the
  text after \<open>#\<close>: a modifier, then optionally a version (the URL's own version when
  absent). No fragment gives no filter; any other fragment text is a SyntaxError.
\<close>

definition spec_fragment :: "string \<Rightarrow> string \<Rightarrow> error + Filter option" where
  "spec_fragment u v =
     (if \<not> includes_char u (CHR ''#'') then Inr None
      else
        (case tl (dropWhile (\<lambda>c. c \<noteq> CHR ''#'') u) of
           [] \<Rightarrow> Inl (SyntaxError ''invalid fragment: '')
         | m # rest \<Rightarrow>
             (case spec_semver (if rest = [] then v else rest) of
                None \<Rightarrow> Inl (SyntaxError (''invalid fragment: '' @ m # rest))
              | Some sv \<Rightarrow>
                  (if m = CHR ''='' then Inr (Some (sv_eq sv))
                   else if m = CHR ''^'' then Inr (Some (sv_caret sv))
                   else if m = CHR ''~'' then Inr (Some (sv_tilde sv))
                   else if m = CHR ''<'' then Inr (Some (sv_lt sv))
                   else Inl (SyntaxError (''invalid fragment: '' @ m # rest))))))"

subsection \<open>Registry, scan and colours\<close>

text \<open>
  Modelled from the spec: the registry classes of registry.ts are not under src/. This
  registry recognises URLs of the shape \<open>prefix@version/path\<close>: \<open>version()\<close> is the text
  between the first \<open>@\<close> and the next \<open>/\<close>, \<open>at(v)\<close> puts \<open>v\<close> in its place and keeps
  the rest (path and fragment), and \<open>all()\<close> returns the list \<open>published\<close>.
\<close>

definition spec_version :: "string \<Rightarrow> string" where
  "spec_version u = takeWhile (\<lambda>c. c \<noteq> CHR ''/'') (tl (dropWhile (\<lambda>c. c \<noteq> CHR ''@'') u))"

definition spec_at :: "string \<Rightarrow> string option \<Rightarrow> string" where
  "spec_at u v =
     takeWhile (\<lambda>c. c \<noteq> CHR ''@'') u @ ''@'' @ js_string v @
     dropWhile (\<lambda>c. c \<noteq> CHR ''/'') (tl (dropWhile (\<lambda>c. c \<noteq> CHR ''@'') u))"

definition spec_registry :: "(error + string list) \<Rightarrow> string \<Rightarrow> RegistryUrl" where
  "spec_registry published u =
     \<lparr>url = u, version_fn = spec_version, all_fn = (\<lambda>u. published), at_fn = spec_at\<rparr>"

definition spec_lookup :: "(error + string list) \<Rightarrow> string \<Rightarrow> RegistryUrl option" where
  "spec_lookup published u =
     (if includes_char u (CHR ''@'') then Some (spec_registry published u) else None)"

text \<open>
  Modelled from the spec: the scan of search.ts is not under src/. This scan returns the
  double-quoted strings of the text that the registry recognises, in order.
\<close>

fun quoted :: "string list \<Rightarrow> string list" where
  "quoted (a # b # c # rest) = b # quoted (c # rest)"
| "quoted rest = []"

definition spec_importUrls :: "string \<Rightarrow> string list" where
  "spec_importUrls content =
     filter (\<lambda>u. includes_char u (CHR ''@'')) (quoted (split [CHR 0x22] content))"

text \<open>
  \<open>colors.yellow\<close> of the standard library (re-exported by deps.ts), with colours
  enabled: the text between the escape sequences for yellow and for the default colour.
\<close>

definition ansi_yellow :: "string \<Rightarrow> string" where
  "ansi_yellow s = CHR 0x1B # ''[33m'' @ s @ CHR 0x1B # ''[39m''"

definition spec_deps :: "(error + string list) \<Rightarrow> deps" where
  "spec_deps published =
     \<lparr>importUrls = spec_importUrls, lookup = spec_lookup published,
      semver = spec_semver, fragment = spec_fragment,
      getPrereleaseVersion = spec_getPrereleaseVersion, yellow = ansi_yellow\<rparr>"

section \<open>Example files and registries\<close>

text \<open>An import statement of a file, and a module URL pinned to a version token.\<close>

definition import_line :: "string \<Rightarrow> string" where
  "import_line u = ''import '' @ [CHR 0x22] @ u @ [CHR 0x22] @ '';''"

definition foo_at :: "string \<Rightarrow> string" where
  "foo_at token = ''https://deno.land/x/foo@'' @ token @ ''/mod.ts''"

text \<open>Options: a real run with the default validation, one whose validation always
  fails, and a dry run.\<close>

definition default_opts :: UddOptions where
  "default_opts = \<lparr>dryRun = False, test = None\<rparr>"

definition rejecting_opts :: UddOptions where
  "rejecting_opts = \<lparr>dryRun = False, test = Some (\<lambda>content. Rejects)\<rparr>"

definition dry_opts :: UddOptions where
  "dry_opts = \<lparr>dryRun = True, test = None\<rparr>"

text \<open>A file that imports the same module at two versions, and the same file with
  both imports at the older version.\<close>

definition two_imports :: string where
  "two_imports = import_line (foo_at ''1.0.0'') @ import_line (foo_at ''2.0.0'')"

definition both_old :: string where
  "both_old = import_line (foo_at ''1.0.0'') @ import_line (foo_at ''1.0.0'')"

text \<open>The version list of the specification's scenario B.\<close>

definition published_B :: "error + string list" where
  "published_B = Inr [''1.4.2'', ''2.0.0'', ''1.0.0'']"

text \<open>A registry whose fetch fails, and one that publishes only a prerelease.\<close>

definition published_failing :: "error + string list" where
  "published_failing = Inl (OtherError ''fetch failed'')"

definition published_beta :: "error + string list" where
  "published_beta = Inr [''2.0.0-beta.1'']"

text \<open>\<open>colors.yellow\<close> with colours disabled (\<open>NO_COLOR\<close>): the text unchanged.\<close>

definition plain_deps :: "(error + string list) \<Rightarrow> deps" where
  "plain_deps published = (spec_deps published)\<lparr>yellow := (\<lambda>s. s)\<rparr>"


definition published_mixed :: "error + string list" where
  "published_mixed = Inr [''2.0.0-beta.1'', ''1.2.0'', ''1.0.0'']"


text \<open>A version list of release candidates only.\<close>

definition published_rc :: "error + string list" where
  "published_rc = Inr [''1.0.0-rc.2'', ''1.0.0-rc.1'']"

text \<open>
  A file with three imports: one with a malformed fragment, one whose constraint no
  published version satisfies, and one that can be updated.
\<close>

definition three_failures :: string where
  "three_failures =
     import_line (foo_at ''1.0.0'' @ ''#bogus'') @
     import_line (foo_at ''1.0.0'' @ ''#<1.0.0'') @
     import_line (foo_at ''1.0.0'')"

section \<open>The branches of \<open>update\<close>\<close>

text \<open>One lemma for each way through \<open>update\<close>, in the order of the source.\<close>

lemma update_fetch_error:
  "all_fn r (url r) = Inl e \<Longrightarrow> update d opts r content = (Inl e, content)"
  by (simp add: update_def)

lemma update_empty_token:
  "all_fn r (url r) = Inr versions \<Longrightarrow> version_fn r (url r) = [] \<Longrightarrow>
   update d opts r content = (Inl TypeError, content)"
  by (simp add: update_def)

lemma update_not_semver:
  "all_fn r (url r) = Inr versions \<Longrightarrow> version_fn r (url r) = c # rest \<Longrightarrow>
   semver d (version_fn (relocate r c rest) (url (relocate r c rest))) = None \<Longrightarrow>
   update d opts r content =
     (Inr \<lparr>initUrl = url r, initVersion = c # rest, message = None, success = None\<rparr>, content)"
  by (simp add: update_def)

lemma update_syntax_error:
  "all_fn r (url r) = Inr versions \<Longrightarrow> version_fn r (url r) = c # rest \<Longrightarrow>
   semver d (version_fn (relocate r c rest) (url (relocate r c rest))) = Some sv \<Longrightarrow>
   fragment d (url (relocate r c rest)) (version_fn (relocate r c rest) (url (relocate r c rest)))
     = Inl (SyntaxError m) \<Longrightarrow>
   update d opts r content =
     (Inr \<lparr>initUrl = url r, initVersion = c # rest, message = Some m, success = Some False\<rparr>,
      content)"
  by (simp add: update_def)

lemma update_rethrow:
  "all_fn r (url r) = Inr versions \<Longrightarrow> version_fn r (url r) = c # rest \<Longrightarrow>
   semver d (version_fn (relocate r c rest) (url (relocate r c rest))) = Some sv \<Longrightarrow>
   fragment d (url (relocate r c rest)) (version_fn (relocate r c rest) (url (relocate r c rest)))
     = Inl e \<Longrightarrow>
   \<forall>m. e \<noteq> SyntaxError m \<Longrightarrow>
   update d opts r content = (Inl e, content)"
  by (cases e) (simp_all add: update_def)

lemma update_no_compatible:
  "all_fn r (url r) = Inr versions \<Longrightarrow> version_fn r (url r) = c # rest \<Longrightarrow>
   semver d (version_fn (relocate r c rest) (url (relocate r c rest))) = Some sv \<Longrightarrow>
   fragment d (url (relocate r c rest)) (version_fn (relocate r c rest) (url (relocate r c rest)))
     = Inr flt \<Longrightarrow>
   chooseVersion d flt (candidates d (c # rest) versions) = Inl x \<Longrightarrow>
   update d opts r content =
     (Inr \<lparr>initUrl = url r, initVersion = c # rest,
           message = Some ''no compatible version found'', success = Some False\<rparr>, content)"
  by (simp add: update_def)

lemma update_report:
  "all_fn r (url r) = Inr versions \<Longrightarrow> version_fn r (url r) = c # rest \<Longrightarrow>
   semver d (version_fn (relocate r c rest) (url (relocate r c rest))) = Some sv \<Longrightarrow>
   fragment d (url (relocate r c rest)) (version_fn (relocate r c rest) (url (relocate r c rest)))
     = Inr flt \<Longrightarrow>
   chooseVersion d flt (candidates d (c # rest) versions) = Inr chosen \<Longrightarrow>
   update d opts r content =
     (Inr (fst (report d opts (relocate r c rest) (url r) (c # rest) (newFragmentToken r c) chosen content)),
      snd (report d opts (relocate r c rest) (url r) (c # rest) (newFragmentToken r c) chosen content))"
  by (simp add: update_def split: prod.splits)

lemma maybeReplace_rejected:
  "this_test opts (replace initUrl0 (at_fn r (url r) newVersion) content) = Rejects \<Longrightarrow>
   maybeReplace opts r newVersion initUrl0 content =
     (True, replace (at_fn r (url r) newVersion) initUrl0
              (replace initUrl0 (at_fn r (url r) newVersion) content))"
  by (simp add: maybeReplace_def Let_def)

lemma maybeReplace_resolved:
  "this_test opts (replace initUrl0 (at_fn r (url r) newVersion) content) = Resolves \<Longrightarrow>
   maybeReplace opts r newVersion initUrl0 content =
     (False, replace initUrl0 (at_fn r (url r) newVersion) content)"
  by (simp add: maybeReplace_def Let_def)

lemma relocate_plain:
  "\<not> is_modifier c \<Longrightarrow> relocate r c rest = r \<and> newFragmentToken r c = None"
  by (simp add: relocate_def newFragmentToken_def)

lemma relocate_modifier:
  "is_modifier c \<Longrightarrow> \<not> includes_char (url r) (CHR ''#'') \<Longrightarrow>
   relocate r c rest = r\<lparr>url := at_fn r (url r) (Some rest) @ ''#'' @ [c]\<rparr>
   \<and> newFragmentToken r c = Some [c]"
  by (simp add: relocate_def newFragmentToken_def)

text \<open>
  \<open>update\<close> either ends before line 143, with a result that depends neither on the
  options nor on the file and without writing, or it ends in \<open>report\<close>.
\<close>

lemma update_shape:
  "(\<exists>x. \<forall>opts content. update d opts r content = (x, content)) \<or>
   (\<exists>r1 token chosen. \<forall>opts content.
      update d opts r content =
        (Inr (fst (report d opts r1 (url r) (version_fn r (url r)) token chosen content)),
         snd (report d opts r1 (url r) (version_fn r (url r)) token chosen content)))"
proof (cases "all_fn r (url r)")
  case (Inl e)
  then show ?thesis using update_fetch_error by blast
next
  case fetched: (Inr versions)
  show ?thesis
  proof (cases "version_fn r (url r)")
    case Nil
    then show ?thesis using update_empty_token [OF fetched] by blast
  next
    case token: (Cons c rest)
    let ?r1 = "relocate r c rest"
    show ?thesis
    proof (cases "semver d (version_fn ?r1 (url ?r1))")
      case None
      then show ?thesis using update_not_semver [OF fetched token] by blast
    next
      case parsed: (Some sv)
      show ?thesis
      proof (cases "fragment d (url ?r1) (version_fn ?r1 (url ?r1))")
        case raised: (Inl e)
        show ?thesis
        proof (cases "\<exists>m. e = SyntaxError m")
          case True
          then show ?thesis
            using update_syntax_error [OF fetched token parsed] raised by blast
        next
          case False
          then have "\<forall>m. e \<noteq> SyntaxError m" by simp
          then show ?thesis
            using update_rethrow [OF fetched token parsed raised] by blast
        qed
      next
        case filter: (Inr flt)
        show ?thesis
        proof (cases "chooseVersion d flt (candidates d (c # rest) versions)")
          case (Inl x)
          then show ?thesis
            using update_no_compatible [OF fetched token parsed filter] by blast
        next
          case (Inr chosen)
          have "\<forall>opts content. update d opts r content =
            (Inr (fst (report d opts ?r1 (url r) (version_fn r (url r)) (newFragmentToken r c)
                        chosen content)),
             snd (report d opts ?r1 (url r) (version_fn r (url r)) (newFragmentToken r c)
                    chosen content))"
            using update_report [OF fetched token parsed filter Inr] token by simp
          then show ?thesis by blast
        qed
      qed
    qed
  qed
qed

lemma report_dry_run:
  assumes "dryRun opts"
  shows "snd (report d opts r1 u v token chosen content) = content"
    and "report d (opts\<lparr>test := t\<rparr>) r1 u v token chosen content
         = report d opts r1 u v token chosen content"
    and "fst (report d opts r1 u v token chosen content)
         = fst (report d \<lparr>dryRun = False, test = None\<rparr> r1 u v token chosen content')"
  using assms
  by (simp_all add: report_def maybeReplace_def this_test_def Let_def)

lemma update_dry_run:
  assumes "dryRun opts"
  shows "snd (update d opts r content) = content"
    and "update d (opts\<lparr>test := t\<rparr>) r content = update d opts r content"
    and "fst (update d opts r content)
         = fst (update d \<lparr>dryRun = False, test = None\<rparr> r content')"
  using update_shape [of d r] report_dry_run [OF assms] assms
  by (auto simp: report_dry_run)

lemma run_loop_dry_run:
  assumes "dryRun opts"
  shows "snd (run_loop d opts us results content) = content"
    and "run_loop d (opts\<lparr>test := t\<rparr>) us results content = run_loop d opts us results content"
proof -
  have dry: "dryRun (opts\<lparr>test := t\<rparr>)" using assms by simp
  show "snd (run_loop d opts us results content) = content"
  proof (induction us arbitrary: results)
    case Nil
    then show ?case by simp
  next
    case (Cons u us)
    show ?case
    proof (cases "lookup d u")
      case None
      then show ?thesis using Cons.IH by simp
    next
      case (Some v)
      obtain x where upd: "update d opts v content = (x, content)"
        using update_dry_run(1) [OF assms, of d v content] by (cases "update d opts v content") simp
      show ?thesis
        using Some upd Cons.IH by (cases x) simp_all
    qed
  qed
  show "run_loop d (opts\<lparr>test := t\<rparr>) us results content = run_loop d opts us results content"
  proof (induction us arbitrary: results)
    case Nil
    then show ?case by simp
  next
    case (Cons u us)
    show ?case
    proof (cases "lookup d u")
      case None
      then show ?thesis using Cons.IH by simp
    next
      case (Some v)
      obtain x where upd: "update d opts v content = (x, content)"
        using update_dry_run(1) [OF assms, of d v content] by (cases "update d opts v content") simp
      have upd': "update d (opts\<lparr>test := t\<rparr>) v content = (x, content)"
        using upd update_dry_run(2) [OF assms] by simp
      show ?thesis
        using Some upd upd' Cons.IH by (cases x) simp_all
    qed
  qed
qed

lemma run_loop_dry_outcomes:
  assumes "dryRun opts"
  shows "fst (run_loop d opts us results content)
         = fst (run_loop d \<lparr>dryRun = False, test = None\<rparr> us results content')"
proof (induction us arbitrary: results content')
  case Nil
  then show ?case by simp
next
  case (Cons u us)
  show ?case
  proof (cases "lookup d u")
    case None
    then show ?thesis using Cons.IH by simp
  next
    case (Some v)
    obtain x where upd: "update d opts v content = (x, content)"
      using update_dry_run(1) [OF assms, of d v content] by (cases "update d opts v content") simp
    obtain c1 where upd': "update d \<lparr>dryRun = False, test = None\<rparr> v content' = (x, c1)"
      using upd update_dry_run(3) [OF assms, of d v content content']
      by (cases "update d \<lparr>dryRun = False, test = None\<rparr> v content'") simp
    show ?thesis
      using Some upd upd' Cons.IH by (cases x) simp_all
  qed
qed

lemma run_loop_append:
  "run_loop d opts (us1 @ us2) results content =
     (case run_loop d opts us1 results content of
        (Inl e, content1) \<Rightarrow> (Inl e, content1)
      | (Inr results1, content1) \<Rightarrow> run_loop d opts us2 results1 content1)"
proof (induction us1 arbitrary: results content)
  case Nil
  then show ?case by simp
next
  case (Cons u us1)
  then show ?case
    by (simp split: option.splits prod.splits sum.splits)
qed

lemma update_records_outcome:
  assumes "all_fn r (url r) = Inr versions"
    and "version_fn r (url r) = c # rest"
    and "\<forall>e. fragment d (url (relocate r c rest))
               (version_fn (relocate r c rest) (url (relocate r c rest))) = Inl e
             \<longrightarrow> (\<exists>m. e = SyntaxError m)"
  shows "\<exists>res. fst (update d opts r content) = Inr res"
  using assms
  by (auto simp: update_def Let_def split: option.splits sum.splits error.splits prod.splits)




lemma maybeReplace_all_fn:
  "maybeReplace opts (r1\<lparr>all_fn := g\<rparr>) newVersion u content
   = maybeReplace opts r1 newVersion u content"
  by (simp add: maybeReplace_def)

lemma report_all_fn:
  "report d opts (r1\<lparr>all_fn := g\<rparr>) u v token chosen content
   = report d opts r1 u v token chosen content"
  by (simp add: report_def maybeReplace_all_fn Let_def)

lemma relocate_all_fn:
  "relocate (r\<lparr>all_fn := g\<rparr>) c rest = (relocate r c rest)\<lparr>all_fn := g\<rparr>"
  "newFragmentToken (r\<lparr>all_fn := g\<rparr>) c = newFragmentToken r c"
  by (simp_all add: relocate_def newFragmentToken_def)

lemma candidates_stable_idem:
  "getPrereleaseVersion d token = None \<Longrightarrow>
   candidates d token (filter (\<lambda>v. getPrereleaseVersion d v = None) versions)
   = candidates d token versions"
  by (simp add: candidates_def)

lemma update_ignores_prereleases:
  assumes fetched: "all_fn r (url r) = Inr versions"
    and stable: "getPrereleaseVersion d (version_fn r (url r)) = None"
  shows "update d opts r content =
     update d opts (r\<lparr>all_fn := (\<lambda>u. Inr (filter (\<lambda>v. getPrereleaseVersion d v = None) versions))\<rparr>)
       content"
proof -
  let ?kept = "filter (\<lambda>v. getPrereleaseVersion d v = None) versions"
  let ?r' = "r\<lparr>all_fn := (\<lambda>u. Inr ?kept)\<rparr>"
  have fetched': "all_fn ?r' (url ?r') = Inr ?kept"
    by simp
  show ?thesis
  proof (cases "version_fn r (url r)")
    case Nil
    then have "version_fn ?r' (url ?r') = []" by simp
    then show ?thesis
      using update_empty_token [OF fetched Nil] update_empty_token [OF fetched'] by simp
  next
    case token: (Cons c rest)
    let ?r1 = "relocate r c rest"
    have token': "version_fn ?r' (url ?r') = c # rest"
      using token by simp
    have same: "url (relocate ?r' c rest) = url ?r1"
      "version_fn (relocate ?r' c rest) = version_fn ?r1"
      "url ?r' = url r"
      by (simp_all add: relocate_all_fn)
    have cands: "candidates d (c # rest) ?kept = candidates d (c # rest) versions"
      using stable token by (simp add: candidates_stable_idem)
    show ?thesis
    proof (cases "semver d (version_fn ?r1 (url ?r1))")
      case None
      then show ?thesis
        using update_not_semver [OF fetched token] update_not_semver [OF fetched' token']
        by (simp add: same)
    next
      case parsed: (Some sv)
      then have parsed': "semver d (version_fn (relocate ?r' c rest) (url (relocate ?r' c rest)))
                          = Some sv"
        by (simp add: same)
      show ?thesis
      proof (cases "fragment d (url ?r1) (version_fn ?r1 (url ?r1))")
        case raised: (Inl e)
        then have raised': "fragment d (url (relocate ?r' c rest))
              (version_fn (relocate ?r' c rest) (url (relocate ?r' c rest))) = Inl e"
          by (simp add: same)
        show ?thesis
        proof (cases e)
          case (SyntaxError m)
          then show ?thesis
            using update_syntax_error [OF fetched token parsed]
              update_syntax_error [OF fetched' token' parsed'] raised raised'
            by (simp add: same)
        next
          case TypeError
          then have "\<forall>m. e \<noteq> SyntaxError m" by simp
          then show ?thesis
            using update_rethrow [OF fetched token parsed raised]
              update_rethrow [OF fetched' token' parsed' raised']
            by simp
        next
          case (OtherError m)
          then have "\<forall>m. e \<noteq> SyntaxError m" by simp
          then show ?thesis
            using update_rethrow [OF fetched token parsed raised]
              update_rethrow [OF fetched' token' parsed' raised']
            by simp
        qed
      next
        case filter: (Inr flt)
        then have filter': "fragment d (url (relocate ?r' c rest))
              (version_fn (relocate ?r' c rest) (url (relocate ?r' c rest))) = Inr flt"
          by (simp add: same)
        show ?thesis
        proof (cases "chooseVersion d flt (candidates d (c # rest) versions)")
          case (Inl x)
          then have "chooseVersion d flt (candidates d (c # rest) ?kept) = Inl x"
            by (simp add: cands)
          then show ?thesis
            using update_no_compatible [OF fetched token parsed filter Inl]
              update_no_compatible [OF fetched' token' parsed' filter']
            by (simp add: same)
        next
          case (Inr chosen)
          then have "chooseVersion d flt (candidates d (c # rest) ?kept) = Inr chosen"
            by (simp add: cands)
          then show ?thesis
            using update_report [OF fetched token parsed filter Inr]
              update_report [OF fetched' token' parsed' filter']
            by (simp add: same relocate_all_fn report_all_fn)
        qed
      qed
    qed
  qed
qed

text \<open>The array built by the loop is returned: what was recorded before stays in front.\<close>

lemma run_loop_results:
  "run_loop d opts us results content =
     (case run_loop d opts us [] content of
        (Inl e, content1) \<Rightarrow> (Inl e, content1)
      | (Inr later, content1) \<Rightarrow> (Inr (results @ later), content1))"
proof (induction us arbitrary: results content)
  case Nil
  then show ?case by simp
next
  case (Cons u us)
  show ?case
  proof (cases "lookup d u")
    case None
    then show ?thesis using Cons.IH [of results content] by simp
  next
    case (Some v)
    obtain x content1 where upd: "update d opts v content = (x, content1)"
      by (cases "update d opts v content")
    show ?thesis
    proof (cases x)
      case (Inl e)
      then show ?thesis using Some upd by simp
    next
      case (Inr res)
      show ?thesis
        using Some upd Inr Cons.IH [of "results @ [res]" content1] Cons.IH [of "[res]" content1]
        by (simp split: prod.splits sum.splits)
    qed
  qed
qed

text \<open>
  The validation-failure branch of lines 153 to 168: the callback's promise rejects on
  the rewritten file, the inverse substitution runs, and the outcome is a failure.
\<close>

lemma update_validation_failure:
  assumes "all_fn r (url r) = Inr versions"
    and "version_fn r (url r) = c # rest"
    and "semver d (version_fn (relocate r c rest) (url (relocate r c rest))) = Some sv"
    and "fragment d (url (relocate r c rest))
           (version_fn (relocate r c rest) (url (relocate r c rest))) = Inr flt"
    and "chooseVersion d flt (candidates d (c # rest) versions) = Inr chosen"
    and "newVersion = (case newFragmentToken r c of
                         None \<Rightarrow> chosen | Some t \<Rightarrow> Some (t @ js_string chosen))"
    and "newUrl = at_fn (relocate r c rest) (url (relocate r c rest)) newVersion"
    and "\<not> (Some (version_fn (relocate r c rest) (url (relocate r c rest))) = newVersion
            \<and> newFragmentToken r c = None)"
    and "\<not> dryRun opts"
    and "this_test opts (replace (url r) newUrl content) = Rejects"
  shows "update d opts r content =
     (Inr \<lparr>initUrl = url r, initVersion = c # rest,
           message = Some (js_string newVersion @
                       yellow d (case newFragmentToken r c of None \<Rightarrow> [] | Some t \<Rightarrow> ''#'' @ t)),
           success = Some False\<rparr>,
      replace newUrl (url r) (replace (url r) newUrl content))"
proof -
  have "maybeReplace opts (relocate r c rest) newVersion (url r) content
        = (True, replace newUrl (url r) (replace (url r) newUrl content))"
    using assms(7,10) maybeReplace_rejected [of opts "url r" "relocate r c rest" newVersion content]
    by simp
  then have "report d opts (relocate r c rest) (url r) (c # rest) (newFragmentToken r c)
               chosen content =
     (\<lparr>initUrl = url r, initVersion = c # rest,
       message = Some (js_string newVersion @
                   yellow d (case newFragmentToken r c of None \<Rightarrow> [] | Some t \<Rightarrow> ''#'' @ t)),
       success = Some False\<rparr>,
      replace newUrl (url r) (replace (url r) newUrl content))"
    using assms(6,8,9) by (simp add: report_def Let_def)
  then show ?thesis
    using update_report [OF assms(1-5), of opts content] by simp
qed

section \<open>The claims\<close>

subsection \<open>Rollback after a failed validation\<close>

text \<open>
  Claim C1 (rollback law), evaluated on a file that imports the same module twice, at
  1.0.0 and at 2.0.0, with a registry that publishes 2.0.0 and 1.0.0 and a validation
  callback that always fails. The first reference is rewritten to 2.0.0, validation
  fails, and the inverse substitution turns every occurrence of the 2.0.0 URL into the
  1.0.0 URL, the second import included. The second reference is then already at the
  latest version. The run completes with both outcomes, and the file it leaves differs
  from the file it started with.
\<close>

theorem rollback_rewrites_second_import:
  "run (spec_deps (Inr [''2.0.0'', ''1.0.0''])) rejecting_opts two_imports =
     (Inr [\<lparr>initUrl = foo_at ''1.0.0'', initVersion = ''1.0.0'',
            message = Some (''2.0.0'' @ ansi_yellow []), success = Some False\<rparr>,
           \<lparr>initUrl = foo_at ''2.0.0'', initVersion = ''2.0.0'',
            message = None, success = None\<rparr>],
      both_old)
   \<and> both_old \<noteq> two_imports"
  by code_simp

subsection \<open>The empty version token\<close>

text \<open>
  Claim C10: for a reference whose version token is the empty string, once the version
  list has been fetched, \<open>update\<close> raises a TypeError at the modifier test of line 88;
  it does not return the outcome of the non-semver skip path, and the file is untouched.
\<close>

theorem empty_token_type_error:
  assumes "all_fn r (url r) = Inr versions" and "version_fn r (url r) = []"
  shows "update d opts r content = (Inl TypeError, content)"
  using assms by (simp add: update_def)

text \<open>Witness: the URL \<open>https://deno.land/x/foo@/mod.ts\<close>, whose version token is empty.\<close>

theorem empty_token_type_error_witness:
  "update (spec_deps published_B) default_opts
     (spec_registry published_B (foo_at []))
     (import_line (foo_at []))
   = (Inl TypeError, import_line (foo_at []))"
proof -
  have fetched: "all_fn (spec_registry published_B (foo_at []))
             (url (spec_registry published_B (foo_at [])))
           = Inr [''1.4.2'', ''2.0.0'', ''1.0.0'']"
    by (simp add: spec_registry_def published_B_def)
  have token: "version_fn (spec_registry published_B (foo_at []))
             (url (spec_registry published_B (foo_at []))) = []"
    by code_simp
  show ?thesis by (rule empty_token_type_error [OF fetched token])
qed

subsection \<open>Relocating the modifier\<close>

text \<open>
  Claim C2, as amended: for a reference whose version token starts with a modifier
  (one of \<open>~ ^ = <\<close>) and whose URL contains no \<open>#\<close>, the URL is rewritten to
  \<open>at(token without modifier).url + "#" + modifier\<close>; when resolution then chooses a
  target, the target passed to the replacement is the modifier followed by the chosen
  version, and the reported message is the modifier, the chosen version, and then
  \<open>colors.yellow("#" + modifier)\<close> (line 166), not the modifier and version alone.
\<close>

theorem modifier_relocated_and_reattached:
  assumes "all_fn r (url r) = Inr versions"
    and "version_fn r (url r) = c # rest"
    and "is_modifier c"
    and "\<not> includes_char (url r) (CHR ''#'')"
    and "semver d (version_fn (relocate r c rest) (url (relocate r c rest))) = Some sv"
    and "fragment d (url (relocate r c rest))
           (version_fn (relocate r c rest) (url (relocate r c rest))) = Inr flt"
    and "chooseVersion d flt (candidates d (c # rest) versions) = Inr chosen"
  shows "url (relocate r c rest) = at_fn r (url r) (Some rest) @ ''#'' @ [c]
     \<and> update d opts r content =
       (if dryRun opts
        then (Inr \<lparr>initUrl = url r, initVersion = c # rest,
                   message = Some (c # js_string chosen @ yellow d (''#'' @ [c])),
                   success = Some True\<rparr>, content)
        else (Inr \<lparr>initUrl = url r, initVersion = c # rest,
                   message = Some (c # js_string chosen @ yellow d (''#'' @ [c])),
                   success = Some (\<not> fst (maybeReplace opts (relocate r c rest)
                                      (Some (c # js_string chosen)) (url r) content))\<rparr>,
              snd (maybeReplace opts (relocate r c rest)
                     (Some (c # js_string chosen)) (url r) content)))"
proof -
  have moved: "relocate r c rest = r\<lparr>url := at_fn r (url r) (Some rest) @ ''#'' @ [c]\<rparr>"
    and token: "newFragmentToken r c = Some [c]"
    using assms(3,4) relocate_modifier by simp_all
  have "update d opts r content =
     (Inr (fst (report d opts (relocate r c rest) (url r) (c # rest) (Some [c]) chosen content)),
      snd (report d opts (relocate r c rest) (url r) (c # rest) (Some [c]) chosen content))"
    using update_report [OF assms(1,2,5,6,7), of opts content] token by simp
  then have "update d opts r content =
       (if dryRun opts
        then (Inr \<lparr>initUrl = url r, initVersion = c # rest,
                   message = Some (c # js_string chosen @ yellow d (''#'' @ [c])),
                   success = Some True\<rparr>, content)
        else (Inr \<lparr>initUrl = url r, initVersion = c # rest,
                   message = Some (c # js_string chosen @ yellow d (''#'' @ [c])),
                   success = Some (\<not> fst (maybeReplace opts (relocate r c rest)
                                      (Some (c # js_string chosen)) (url r) content))\<rparr>,
              snd (maybeReplace opts (relocate r c rest)
                     (Some (c # js_string chosen)) (url r) content)))"
    by (simp add: report_def js_string_def split: prod.splits)
  moreover have "url (relocate r c rest) = at_fn r (url r) (Some rest) @ ''#'' @ [c]"
    by (simp add: moved)
  ultimately show ?thesis by simp
qed


text \<open>
  Counterexample to claim C2 as stated: in scenario B (token \<open>^1.0.0\<close>, versions 1.4.2,
  2.0.0, 1.0.0) the message is not \<open>^1.4.2\<close>, neither with colours enabled nor with
  colours disabled.
\<close>

theorem scenario_B_message_counterexample:
  "map_sum id message
     (fst (update (spec_deps published_B) default_opts
             (spec_registry published_B (foo_at ''^1.0.0'')) (import_line (foo_at ''^1.0.0''))))
   \<noteq> Inr (Some ''^1.4.2'')
   \<and> map_sum id message
     (fst (update (plain_deps published_B) default_opts
             (spec_registry published_B (foo_at ''^1.0.0'')) (import_line (foo_at ''^1.0.0''))))
   \<noteq> Inr (Some ''^1.4.2'')"
  by code_simp


text \<open>Witness: scenario B, where the file ends with the URL pinned to \<open>^1.4.2\<close> and
  the fragment \<open>#^\<close>.\<close>

theorem modifier_relocated_and_reattached_witness:
  "update (spec_deps published_B) default_opts
     (spec_registry published_B (foo_at ''^1.0.0'')) (import_line (foo_at ''^1.0.0''))
   = (Inr \<lparr>initUrl = foo_at ''^1.0.0'', initVersion = ''^1.0.0'',
           message = Some (''^1.4.2'' @ ansi_yellow ''#^''), success = Some True\<rparr>,
      import_line (foo_at ''^1.4.2'' @ ''#^''))"
proof -
  let ?d = "spec_deps published_B"
  let ?r = "spec_registry published_B (foo_at ''^1.0.0'')"
  let ?r1 = "relocate ?r (CHR ''^'') ''1.0.0''"
  have fetched: "all_fn ?r (url ?r) = Inr [''1.4.2'', ''2.0.0'', ''1.0.0'']"
    by (simp add: spec_registry_def published_B_def)
  have token: "version_fn ?r (url ?r) = CHR ''^'' # ''1.0.0''"
    by code_simp
  have modifier: "is_modifier (CHR ''^'')"
    by code_simp
  have no_fragment: "\<not> includes_char (url ?r) (CHR ''#'')"
    by code_simp
  have parsed: "semver ?d (version_fn ?r1 (url ?r1))
                = Some \<lparr>version = ''1.0.0'', major = 1, minor = 0, patch = 0,
                        prerelease = [], build = []\<rparr>"
    by code_simp
  obtain flt where filter: "fragment ?d (url ?r1) (version_fn ?r1 (url ?r1)) = Inr flt"
    and chosen: "chooseVersion ?d flt (candidates ?d (CHR ''^'' # ''1.0.0'')
                   [''1.4.2'', ''2.0.0'', ''1.0.0'']) = Inr (Some ''1.4.2'')"
  proof -
    have "case fragment ?d (url ?r1) (version_fn ?r1 (url ?r1)) of
            Inl e \<Rightarrow> False
          | Inr flt \<Rightarrow> chooseVersion ?d flt (candidates ?d (CHR ''^'' # ''1.0.0'')
                   [''1.4.2'', ''2.0.0'', ''1.0.0'']) = Inr (Some ''1.4.2'')"
      by code_simp
    then show ?thesis
      using that by (auto split: sum.splits)
  qed
  show ?thesis
    by (subst conjunct2 [OF modifier_relocated_and_reattached
          [OF fetched token modifier no_fragment parsed filter chosen]]) code_simp
qed

subsection \<open>Malformed constraint text\<close>




subsection \<open>Version tokens that are not semver\<close>




subsection \<open>An empty candidate list\<close>

text \<open>
  Claim C9: for a stable, semver-parsable token without modifier and no constraint
  predicate, when no fetched version survives the prerelease filter, \<open>update\<close> does not
  report "no compatible version found". The target is \<open>undefined\<close>: outside dry-run
  \<open>maybeReplace\<close> is called with it, and the message is the text \<open>undefined\<close> followed
  by \<open>colors.yellow("")\<close>.
\<close>

theorem empty_candidates_undefined_target:
  assumes "all_fn r (url r) = Inr versions"
    and "version_fn r (url r) = c # rest"
    and "\<not> is_modifier c"
    and "semver d (c # rest) = Some sv"
    and "getPrereleaseVersion d (c # rest) = None"
    and "filter (\<lambda>v. getPrereleaseVersion d v = None) versions = []"
    and "fragment d (url r) (c # rest) = Inr None"
  shows "update d opts r content =
     (if dryRun opts
      then (Inr \<lparr>initUrl = url r, initVersion = c # rest,
                 message = Some (''undefined'' @ yellow d []), success = Some True\<rparr>, content)
      else (Inr \<lparr>initUrl = url r, initVersion = c # rest,
                 message = Some (''undefined'' @ yellow d []),
                 success = Some (\<not> fst (maybeReplace opts r None (url r) content))\<rparr>,
            snd (maybeReplace opts r None (url r) content)))"
proof -
  have plain: "relocate r c rest = r" "newFragmentToken r c = None"
    using assms(3) relocate_plain by simp_all
  have chosen: "chooseVersion d None (candidates d (c # rest) versions) = Inr None"
    using assms(5,6) by (simp add: chooseVersion_def candidates_def)
  have "update d opts r content =
     (Inr (fst (report d opts r (url r) (c # rest) None None content)),
      snd (report d opts r (url r) (c # rest) None None content))"
    using update_report [of r versions c rest d sv None None opts content] assms plain chosen
    by simp
  then show ?thesis
    by (simp add: report_def js_string_def split: prod.splits)
qed


text \<open>Witness: the only published version is a prerelease; the file ends with the URL
  pinned to the text \<open>undefined\<close>.\<close>

theorem empty_candidates_undefined_target_witness:
  "update (spec_deps published_beta) default_opts
     (spec_registry published_beta (foo_at ''1.0.0'')) (import_line (foo_at ''1.0.0''))
   = (Inr \<lparr>initUrl = foo_at ''1.0.0'', initVersion = ''1.0.0'',
           message = Some (''undefined'' @ ansi_yellow []), success = Some True\<rparr>,
      import_line (foo_at ''undefined''))"
proof -
  let ?d = "spec_deps published_beta"
  let ?r = "spec_registry published_beta (foo_at ''1.0.0'')"
  have fetched: "all_fn ?r (url ?r) = Inr [''2.0.0-beta.1'']"
    by (simp add: spec_registry_def published_beta_def)
  have token: "version_fn ?r (url ?r) = CHR ''1'' # ''.0.0''"
    by code_simp
  have plain: "\<not> is_modifier (CHR ''1'')"
    by code_simp
  have parsed: "semver ?d (CHR ''1'' # ''.0.0'')
                = Some \<lparr>version = ''1.0.0'', major = 1, minor = 0, patch = 0,
                        prerelease = [], build = []\<rparr>"
    by code_simp
  have stable: "getPrereleaseVersion ?d (CHR ''1'' # ''.0.0'') = None"
    by code_simp
  have none_left: "filter (\<lambda>v. getPrereleaseVersion ?d v = None) [''2.0.0-beta.1''] = []"
    by code_simp
  have "case fragment ?d (url ?r) (CHR ''1'' # ''.0.0'') of
          Inl e \<Rightarrow> False | Inr None \<Rightarrow> True | Inr (Some f) \<Rightarrow> False"
    by code_simp
  then have no_filter: "fragment ?d (url ?r) (CHR ''1'' # ''.0.0'') = Inr None"
    by (simp split: sum.splits option.splits)
  show ?thesis
    by (subst empty_candidates_undefined_target
          [OF fetched token plain parsed stable none_left no_filter]) code_simp
qed

subsection \<open>Choosing the target under a constraint\<close>




subsection \<open>Prerelease policy\<close>

text \<open>
  Lines 101 to 106 as written. The test of line 101 is \<open>getPrereleaseVersion\<close> applied
  to the raw token of line 81, modifier included. When it gives \<open>null\<close>, the prerelease
  versions of the fetched list have no influence at all: \<open>update\<close> behaves as if the
  registry had published the list without them. Otherwise the target is chosen from the
  whole fetched list.
\<close>

lemma prerelease_policy:
  assumes "all_fn r (url r) = Inr versions"
    and "version_fn r (url r) = c # rest"
  shows "(getPrereleaseVersion d (c # rest) = None \<longrightarrow>
            update d opts r content =
              update d opts
                (r\<lparr>all_fn := (\<lambda>u. Inr (filter (\<lambda>v. getPrereleaseVersion d v = None) versions))\<rparr>)
                content)
     \<and> (getPrereleaseVersion d (c # rest) \<noteq> None
          \<and> semver d (version_fn (relocate r c rest) (url (relocate r c rest))) = Some sv
          \<and> fragment d (url (relocate r c rest))
               (version_fn (relocate r c rest) (url (relocate r c rest))) = Inr flt \<longrightarrow>
            update d opts r content =
              (case chooseVersion d flt versions of
                 Inl x \<Rightarrow>
                   (Inr \<lparr>initUrl = url r, initVersion = c # rest,
                         message = Some ''no compatible version found'',
                         success = Some False\<rparr>, content)
               | Inr chosen \<Rightarrow>
                   (Inr (fst (report d opts (relocate r c rest) (url r) (c # rest)
                                (newFragmentToken r c) chosen content)),
                    snd (report d opts (relocate r c rest) (url r) (c # rest)
                           (newFragmentToken r c) chosen content))))"
proof (intro conjI impI)
  assume "getPrereleaseVersion d (c # rest) = None"
  then show "update d opts r content =
      update d opts
        (r\<lparr>all_fn := (\<lambda>u. Inr (filter (\<lambda>v. getPrereleaseVersion d v = None) versions))\<rparr>) content"
    using update_ignores_prereleases [OF assms(1), of d opts content] assms(2) by simp
next
  assume h: "getPrereleaseVersion d (c # rest) \<noteq> None
          \<and> semver d (version_fn (relocate r c rest) (url (relocate r c rest))) = Some sv
          \<and> fragment d (url (relocate r c rest))
               (version_fn (relocate r c rest) (url (relocate r c rest))) = Inr flt"
  then have kept: "candidates d (c # rest) versions = versions"
    by (simp add: candidates_def)
  show "update d opts r content =
              (case chooseVersion d flt versions of
                 Inl x \<Rightarrow>
                   (Inr \<lparr>initUrl = url r, initVersion = c # rest,
                         message = Some ''no compatible version found'',
                         success = Some False\<rparr>, content)
               | Inr chosen \<Rightarrow>
                   (Inr (fst (report d opts (relocate r c rest) (url r) (c # rest)
                                (newFragmentToken r c) chosen content)),
                    snd (report d opts (relocate r c rest) (url r) (c # rest)
                           (newFragmentToken r c) chosen content)))"
  proof (cases "chooseVersion d flt versions")
    case (Inl x)
    then show ?thesis
      using update_no_compatible [OF assms, of d sv flt x opts content] h kept by simp
  next
    case (Inr chosen)
    then show ?thesis
      using update_report [OF assms, of d sv flt chosen opts content] h kept by simp
  qed
qed

text \<open>Example: with versions 2.0.0-beta.1, 1.2.0, 1.0.0 the token 1.0.0 is updated to
  1.2.0 and the token 1.0.0-rc.1 to 2.0.0-beta.1.\<close>

lemma prerelease_policy_example:
  "update (spec_deps published_mixed) default_opts
     (spec_registry published_mixed (foo_at ''1.0.0'')) (import_line (foo_at ''1.0.0''))
   = (Inr \<lparr>initUrl = foo_at ''1.0.0'', initVersion = ''1.0.0'',
           message = Some (''1.2.0'' @ ansi_yellow []), success = Some True\<rparr>,
      import_line (foo_at ''1.2.0''))
   \<and> update (spec_deps published_mixed) default_opts
     (spec_registry published_mixed (foo_at ''1.0.0-rc.1'')) (import_line (foo_at ''1.0.0-rc.1''))
   = (Inr \<lparr>initUrl = foo_at ''1.0.0-rc.1'', initVersion = ''1.0.0-rc.1'',
           message = Some (''2.0.0-beta.1'' @ ansi_yellow []), success = Some True\<rparr>,
      import_line (foo_at ''2.0.0-beta.1''))"
proof
  let ?d = "spec_deps published_mixed"
  let ?r = "spec_registry published_mixed (foo_at ''1.0.0'')"
  have fetched: "all_fn ?r (url ?r) = Inr [''2.0.0-beta.1'', ''1.2.0'', ''1.0.0'']"
    by (simp add: spec_registry_def published_mixed_def)
  have token: "version_fn ?r (url ?r) = CHR ''1'' # ''.0.0''"
    by code_simp
  have stable: "getPrereleaseVersion ?d (CHR ''1'' # ''.0.0'') = None"
    by code_simp
  have eq: "update ?d default_opts ?r (import_line (foo_at ''1.0.0'')) =
      update ?d default_opts
        (?r\<lparr>all_fn := (\<lambda>u. Inr (filter (\<lambda>v. getPrereleaseVersion ?d v = None)
                                   [''2.0.0-beta.1'', ''1.2.0'', ''1.0.0'']))\<rparr>)
        (import_line (foo_at ''1.0.0''))"
    using prerelease_policy [OF fetched token, where d = ?d and opts = default_opts
        and content = "import_line (foo_at ''1.0.0'')"]
      stable
    by blast
  show "update ?d default_opts ?r (import_line (foo_at ''1.0.0''))
        = (Inr \<lparr>initUrl = foo_at ''1.0.0'', initVersion = ''1.0.0'',
                message = Some (''1.2.0'' @ ansi_yellow []), success = Some True\<rparr>,
           import_line (foo_at ''1.2.0''))"
    unfolding eq by code_simp
next
  let ?d = "spec_deps published_mixed"
  let ?u = "foo_at ''1.0.0-rc.1''"
  let ?r = "spec_registry published_mixed ?u"
  let ?r1 = "relocate ?r (CHR ''1'') ''.0.0-rc.1''"
  have fetched: "all_fn ?r (url ?r) = Inr [''2.0.0-beta.1'', ''1.2.0'', ''1.0.0'']"
    by (simp add: spec_registry_def published_mixed_def)
  have token: "version_fn ?r (url ?r) = CHR ''1'' # ''.0.0-rc.1''"
    by code_simp
  have pre: "getPrereleaseVersion ?d (CHR ''1'' # ''.0.0-rc.1'') \<noteq> None"
    by code_simp
  have parsed: "semver ?d (version_fn ?r1 (url ?r1))
                = Some \<lparr>version = ''1.0.0-rc.1'', major = 1, minor = 0, patch = 0,
                        prerelease = [''rc'', ''1''], build = []\<rparr>"
    by code_simp
  have "case fragment ?d (url ?r1) (version_fn ?r1 (url ?r1)) of
          Inl e \<Rightarrow> False | Inr None \<Rightarrow> True | Inr (Some f) \<Rightarrow> False"
    by code_simp
  then have no_filter: "fragment ?d (url ?r1) (version_fn ?r1 (url ?r1)) = Inr None"
    by (simp split: sum.splits option.splits)
  have eq: "update ?d default_opts ?r (import_line ?u) =
      (case chooseVersion ?d None [''2.0.0-beta.1'', ''1.2.0'', ''1.0.0''] of
         Inl x \<Rightarrow>
           (Inr \<lparr>initUrl = url ?r, initVersion = CHR ''1'' # ''.0.0-rc.1'',
                 message = Some ''no compatible version found'',
                 success = Some False\<rparr>, import_line ?u)
       | Inr chosen \<Rightarrow>
           (Inr (fst (report ?d default_opts ?r1 (url ?r) (CHR ''1'' # ''.0.0-rc.1'')
                        (newFragmentToken ?r (CHR ''1'')) chosen (import_line ?u))),
            snd (report ?d default_opts ?r1 (url ?r) (CHR ''1'' # ''.0.0-rc.1'')
                   (newFragmentToken ?r (CHR ''1'')) chosen (import_line ?u))))"
    using prerelease_policy [OF fetched token, where d = ?d and flt = None
        and opts = default_opts and content = "import_line ?u"]
      pre parsed no_filter
    by blast
  show "update ?d default_opts ?r (import_line ?u)
        = (Inr \<lparr>initUrl = ?u, initVersion = ''1.0.0-rc.1'',
                message = Some (''2.0.0-beta.1'' @ ansi_yellow []), success = Some True\<rparr>,
           import_line (foo_at ''2.0.0-beta.1''))"
    unfolding eq by code_simp
qed

text \<open>
  Claim C4, evaluated at a token that is a prerelease and carries a modifier. The
  registry publishes 1.0.0-rc.2 and 1.0.0-rc.1. For the token \<open>^1.0.0-rc.1\<close> line 101
  tests the raw token, which is not a version string, so the token counts as stable, line
  105 drops every prerelease candidate, and the outcome is "no compatible version found".
  The same version and constraint written in fragment form, \<open>1.0.0-rc.1#^\<close>, keeps the
  prerelease candidates and is updated to 1.0.0-rc.2, as line 94, which parses the token
  without its modifier, and the comment of lines 103 and 104 intend.
\<close>

theorem modifier_prerelease_token_loses_prereleases:
  "update (spec_deps published_rc) default_opts
     (spec_registry published_rc (foo_at ''^1.0.0-rc.1'')) (import_line (foo_at ''^1.0.0-rc.1''))
   = (Inr \<lparr>initUrl = foo_at ''^1.0.0-rc.1'', initVersion = ''^1.0.0-rc.1'',
           message = Some ''no compatible version found'', success = Some False\<rparr>,
      import_line (foo_at ''^1.0.0-rc.1''))
   \<and> update (spec_deps published_rc) default_opts
     (spec_registry published_rc (foo_at ''1.0.0-rc.1'' @ ''#^''))
     (import_line (foo_at ''1.0.0-rc.1'' @ ''#^''))
   = (Inr \<lparr>initUrl = foo_at ''1.0.0-rc.1'' @ ''#^'', initVersion = ''1.0.0-rc.1'',
           message = Some (''1.0.0-rc.2'' @ ansi_yellow []), success = Some True\<rparr>,
      import_line (foo_at ''1.0.0-rc.2'' @ ''#^''))"
  by code_simp

subsection \<open>Fatal and non-fatal failures\<close>

text \<open>
  Claim C7, in five parts.
  \<^item> An error raised by \<open>all()\<close> is raised by \<open>update\<close>, and the file is not written.
  \<^item> In \<open>run\<close>, when the reference \<open>u\<close> of the scan is one whose fetch raises, the run
    ends with an error and returns no outcomes, whatever was recorded before \<open>u\<close> (the
    error is the one of the fetch unless an earlier reference already raised).
  \<^item> The loop returns the array it built: at the end of the scan the result is the array
    of the outcomes recorded.
  \<^item> After an \<open>update\<close> that returns an outcome the loop goes on with the remaining
    URLs, and if they raise nothing the array returned holds that outcome, after the
    earlier ones and before the later ones.
  \<^item> Once the fetch returned, the token is not empty and the URL's version parses, each
    of the three per-reference failures is returned by \<open>update\<close> as an outcome with
    \<open>success: false\<close>: a constraint SyntaxError (message: the error's text, file not
    written), no compatible version (file not written), and a validation failure, where
    the promise returned by the callback rejects on the rewritten file (message: the
    target and the coloured fragment; file: the inverse substitution applied to the
    rewritten file).
\<close>

theorem fetch_error_aborts_run:
  "(all_fn r (url r) = Inl e \<longrightarrow> update d opts r content = (Inl e, content))
   \<and> (importUrls d content = us1 @ u # us2 \<and> lookup d u = Some r \<and> all_fn r (url r) = Inl e \<longrightarrow>
        run d opts content =
          (case run_loop d opts us1 [] content of
             (Inl e1, content1) \<Rightarrow> (Inl e1, content1)
           | (Inr results1, content1) \<Rightarrow> (Inl e, content1)))
   \<and> run_loop d opts [] results content = (Inr results, content)
   \<and> (lookup d u = Some r \<and> update d opts r content = (Inr res, content1) \<longrightarrow>
        run_loop d opts (u # us) results content =
          (case run_loop d opts us [] content1 of
             (Inl e2, content2) \<Rightarrow> (Inl e2, content2)
           | (Inr later, content2) \<Rightarrow> (Inr (results @ res # later), content2)))
   \<and> (all_fn r (url r) = Inr versions \<and> version_fn r (url r) = c # rest \<and>
        semver d (version_fn (relocate r c rest) (url (relocate r c rest))) = Some sv \<longrightarrow>
        (fragment d (url (relocate r c rest))
           (version_fn (relocate r c rest) (url (relocate r c rest))) = Inl (SyntaxError m) \<longrightarrow>
         update d opts r content =
           (Inr \<lparr>initUrl = url r, initVersion = c # rest,
                 message = Some m, success = Some False\<rparr>, content))
        \<and> (fragment d (url (relocate r c rest))
             (version_fn (relocate r c rest) (url (relocate r c rest))) = Inr flt \<and>
           chooseVersion d flt (candidates d (c # rest) versions) = Inl x \<longrightarrow>
           update d opts r content =
             (Inr \<lparr>initUrl = url r, initVersion = c # rest,
                   message = Some ''no compatible version found'', success = Some False\<rparr>,
              content))
        \<and> (fragment d (url (relocate r c rest))
             (version_fn (relocate r c rest) (url (relocate r c rest))) = Inr flt \<and>
           chooseVersion d flt (candidates d (c # rest) versions) = Inr chosen \<and>
           newVersion = (case newFragmentToken r c of
                           None \<Rightarrow> chosen | Some t \<Rightarrow> Some (t @ js_string chosen)) \<and>
           newUrl = at_fn (relocate r c rest) (url (relocate r c rest)) newVersion \<and>
           \<not> (Some (version_fn (relocate r c rest) (url (relocate r c rest))) = newVersion
              \<and> newFragmentToken r c = None) \<and>
           \<not> dryRun opts \<and>
           this_test opts (replace (url r) newUrl content) = Rejects \<longrightarrow>
           update d opts r content =
             (Inr \<lparr>initUrl = url r, initVersion = c # rest,
                   message = Some (js_string newVersion @
                               yellow d (case newFragmentToken r c of
                                           None \<Rightarrow> [] | Some t \<Rightarrow> ''#'' @ t)),
                   success = Some False\<rparr>,
              replace newUrl (url r) (replace (url r) newUrl content))))"
proof (intro conjI impI)
  assume "all_fn r (url r) = Inl e"
  then show "update d opts r content = (Inl e, content)"
    by (rule update_fetch_error)
next
  assume h: "importUrls d content = us1 @ u # us2 \<and> lookup d u = Some r \<and> all_fn r (url r) = Inl e"
  then have "\<And>results1 content1. run_loop d opts (u # us2) results1 content1 = (Inl e, content1)"
    by (simp add: update_fetch_error)
  then show "run d opts content =
          (case run_loop d opts us1 [] content of
             (Inl e1, content1) \<Rightarrow> (Inl e1, content1)
           | (Inr results1, content1) \<Rightarrow> (Inl e, content1))"
    using h by (simp add: run_def run_loop_append split: prod.splits sum.splits)
next
  show "run_loop d opts [] results content = (Inr results, content)"
    by simp
next
  assume h: "lookup d u = Some r \<and> update d opts r content = (Inr res, content1)"
  then have "run_loop d opts (u # us) results content
             = run_loop d opts us (results @ [res]) content1"
    by simp
  then show "run_loop d opts (u # us) results content =
          (case run_loop d opts us [] content1 of
             (Inl e2, content2) \<Rightarrow> (Inl e2, content2)
           | (Inr later, content2) \<Rightarrow> (Inr (results @ res # later), content2))"
    using run_loop_results [of d opts us "results @ [res]" content1]
    by (simp split: prod.splits sum.splits)
next
  assume "all_fn r (url r) = Inr versions \<and> version_fn r (url r) = c # rest \<and>
        semver d (version_fn (relocate r c rest) (url (relocate r c rest))) = Some sv"
    and "fragment d (url (relocate r c rest))
           (version_fn (relocate r c rest) (url (relocate r c rest))) = Inl (SyntaxError m)"
  then show "update d opts r content =
           (Inr \<lparr>initUrl = url r, initVersion = c # rest,
                 message = Some m, success = Some False\<rparr>, content)"
    using update_syntax_error by blast
next
  assume "all_fn r (url r) = Inr versions \<and> version_fn r (url r) = c # rest \<and>
        semver d (version_fn (relocate r c rest) (url (relocate r c rest))) = Some sv"
    and "fragment d (url (relocate r c rest))
             (version_fn (relocate r c rest) (url (relocate r c rest))) = Inr flt \<and>
           chooseVersion d flt (candidates d (c # rest) versions) = Inl x"
  then show "update d opts r content =
             (Inr \<lparr>initUrl = url r, initVersion = c # rest,
                   message = Some ''no compatible version found'', success = Some False\<rparr>,
              content)"
    using update_no_compatible by blast
next
  assume p: "all_fn r (url r) = Inr versions \<and> version_fn r (url r) = c # rest \<and>
        semver d (version_fn (relocate r c rest) (url (relocate r c rest))) = Some sv"
    and q: "fragment d (url (relocate r c rest))
             (version_fn (relocate r c rest) (url (relocate r c rest))) = Inr flt \<and>
           chooseVersion d flt (candidates d (c # rest) versions) = Inr chosen \<and>
           newVersion = (case newFragmentToken r c of
                           None \<Rightarrow> chosen | Some t \<Rightarrow> Some (t @ js_string chosen)) \<and>
           newUrl = at_fn (relocate r c rest) (url (relocate r c rest)) newVersion \<and>
           \<not> (Some (version_fn (relocate r c rest) (url (relocate r c rest))) = newVersion
              \<and> newFragmentToken r c = None) \<and>
           \<not> dryRun opts \<and>
           this_test opts (replace (url r) newUrl content) = Rejects"
  show "update d opts r content =
             (Inr \<lparr>initUrl = url r, initVersion = c # rest,
                   message = Some (js_string newVersion @
                               yellow d (case newFragmentToken r c of
                                           None \<Rightarrow> [] | Some t \<Rightarrow> ''#'' @ t)),
                   success = Some False\<rparr>,
              replace newUrl (url r) (replace (url r) newUrl content))"
    by (rule update_validation_failure
          [OF conjunct1 [OF p] conjunct1 [OF conjunct2 [OF p]] conjunct2 [OF conjunct2 [OF p]]
              conjunct1 [OF q] conjunct1 [OF conjunct2 [OF q]]
              conjunct1 [OF conjunct2 [OF conjunct2 [OF q]]]
              conjunct1 [OF conjunct2 [OF conjunct2 [OF conjunct2 [OF q]]]]
              conjunct1 [OF conjunct2 [OF conjunct2 [OF conjunct2 [OF conjunct2 [OF q]]]]]
              conjunct1 [OF conjunct2 [OF conjunct2 [OF conjunct2 [OF conjunct2
                [OF conjunct2 [OF q]]]]]]
              conjunct2 [OF conjunct2 [OF conjunct2 [OF conjunct2 [OF conjunct2
                [OF conjunct2 [OF q]]]]]]])
qed

text \<open>
  Witness: a registry whose fetch fails, where the run ends with that error; and a run
  with a rejecting callback over a file whose three imports fail in the three ways, where
  the run returns the three failure outcomes in order and the file is as before.
\<close>

theorem fetch_error_aborts_run_witness:
  "run (spec_deps published_failing) default_opts
     (import_line (foo_at ''main'') @ import_line (foo_at ''1.0.0''))
   = (Inl (OtherError ''fetch failed''),
      import_line (foo_at ''main'') @ import_line (foo_at ''1.0.0''))
   \<and> run (spec_deps published_B) rejecting_opts three_failures
   = (Inr [\<lparr>initUrl = foo_at ''1.0.0'' @ ''#bogus'', initVersion = ''1.0.0'',
            message = Some ''invalid fragment: bogus'', success = Some False\<rparr>,
           \<lparr>initUrl = foo_at ''1.0.0'' @ ''#<1.0.0'', initVersion = ''1.0.0'',
            message = Some ''no compatible version found'', success = Some False\<rparr>,
           \<lparr>initUrl = foo_at ''1.0.0'', initVersion = ''1.0.0'',
            message = Some (''1.4.2'' @ ansi_yellow []), success = Some False\<rparr>],
      three_failures)"
proof
  let ?d = "spec_deps published_failing"
  let ?file = "import_line (foo_at ''main'') @ import_line (foo_at ''1.0.0'')"
  let ?r = "spec_registry published_failing (foo_at ''main'')"
  have scan: "importUrls ?d ?file = [] @ foo_at ''main'' # [foo_at ''1.0.0'']"
    by code_simp
  have "includes_char (foo_at ''main'') (CHR ''@'')"
    by code_simp
  then have found: "lookup ?d (foo_at ''main'') = Some ?r"
    by (simp add: spec_deps_def spec_lookup_def)
  have raised: "all_fn ?r (url ?r) = Inl (OtherError ''fetch failed'')"
    by (simp add: spec_registry_def published_failing_def)
  have "run ?d default_opts ?file =
          (case run_loop ?d default_opts [] [] ?file of
             (Inl e1, content1) \<Rightarrow> (Inl e1, content1)
           | (Inr results1, content1) \<Rightarrow> (Inl (OtherError ''fetch failed''), content1))"
    by (rule fetch_error_aborts_run [THEN conjunct2, THEN conjunct1, THEN mp,
          OF conjI [OF scan conjI [OF found raised]]])
  then show "run ?d default_opts ?file = (Inl (OtherError ''fetch failed''), ?file)"
    by simp
next
  let ?d = "spec_deps published_B"
  let ?o = rejecting_opts
  let ?f = three_failures
  let ?u1 = "foo_at ''1.0.0'' @ ''#bogus''"
  let ?u2 = "foo_at ''1.0.0'' @ ''#<1.0.0''"
  let ?u3 = "foo_at ''1.0.0''"
  let ?r1 = "spec_registry published_B ?u1"
  let ?r2 = "spec_registry published_B ?u2"
  let ?r3 = "spec_registry published_B ?u3"
  let ?vs = "[''1.4.2'', ''2.0.0'', ''1.0.0'']"
  let ?sv = "\<lparr>version = ''1.0.0'', major = 1, minor = 0, patch = 0,
               prerelease = [], build = []\<rparr>"
  let ?o1 = "\<lparr>initUrl = ?u1, initVersion = ''1.0.0'',
              message = Some ''invalid fragment: bogus'', success = Some False\<rparr>"
  let ?o2 = "\<lparr>initUrl = ?u2, initVersion = ''1.0.0'',
              message = Some ''no compatible version found'', success = Some False\<rparr>"
  let ?o3 = "\<lparr>initUrl = ?u3, initVersion = ''1.0.0'',
              message = Some (''1.4.2'' @ ansi_yellow []), success = Some False\<rparr>"
  note path = fetch_error_aborts_run
    [THEN conjunct2, THEN conjunct2, THEN conjunct2, THEN conjunct2, THEN mp]
  note step = fetch_error_aborts_run
    [THEN conjunct2, THEN conjunct2, THEN conjunct2, THEN conjunct1, THEN mp]
  note base = fetch_error_aborts_run [THEN conjunct2, THEN conjunct2, THEN conjunct1]
  have scan: "importUrls ?d ?f = [?u1, ?u2, ?u3]"
    by code_simp
  have urls: "url ?r1 = ?u1" "url ?r2 = ?u2" "url ?r3 = ?u3"
    by (simp_all add: spec_registry_def)
  have "includes_char ?u1 (CHR ''@'')" "includes_char ?u2 (CHR ''@'')"
    "includes_char ?u3 (CHR ''@'')"
    by code_simp+
  then have found: "lookup ?d ?u1 = Some ?r1" "lookup ?d ?u2 = Some ?r2"
    "lookup ?d ?u3 = Some ?r3"
    by (simp_all add: spec_deps_def spec_lookup_def)
  have fetched: "all_fn ?r1 (url ?r1) = Inr ?vs" "all_fn ?r2 (url ?r2) = Inr ?vs"
    "all_fn ?r3 (url ?r3) = Inr ?vs"
    by (simp_all add: spec_registry_def published_B_def)
  have token: "version_fn ?r1 (url ?r1) = CHR ''1'' # ''.0.0''"
    "version_fn ?r2 (url ?r2) = CHR ''1'' # ''.0.0''"
    "version_fn ?r3 (url ?r3) = CHR ''1'' # ''.0.0''"
    by code_simp+
  have parsed:
    "semver ?d (version_fn (relocate ?r1 (CHR ''1'') ''.0.0'')
       (url (relocate ?r1 (CHR ''1'') ''.0.0''))) = Some ?sv"
    "semver ?d (version_fn (relocate ?r2 (CHR ''1'') ''.0.0'')
       (url (relocate ?r2 (CHR ''1'') ''.0.0''))) = Some ?sv"
    "semver ?d (version_fn (relocate ?r3 (CHR ''1'') ''.0.0'')
       (url (relocate ?r3 (CHR ''1'') ''.0.0''))) = Some ?sv"
    by code_simp+
  \<comment> \<open>first reference: constraint syntax error\<close>
  have "case fragment ?d (url (relocate ?r1 (CHR ''1'') ''.0.0''))
               (version_fn (relocate ?r1 (CHR ''1'') ''.0.0'')
                  (url (relocate ?r1 (CHR ''1'') ''.0.0''))) of
          Inl e \<Rightarrow> e = SyntaxError ''invalid fragment: bogus''
        | Inr flt \<Rightarrow> False"
    by code_simp
  then have raised: "fragment ?d (url (relocate ?r1 (CHR ''1'') ''.0.0''))
               (version_fn (relocate ?r1 (CHR ''1'') ''.0.0'')
                  (url (relocate ?r1 (CHR ''1'') ''.0.0'')))
             = Inl (SyntaxError ''invalid fragment: bogus'')"
    by (simp split: sum.splits)
  have "update ?d ?o ?r1 ?f =
          (Inr \<lparr>initUrl = url ?r1, initVersion = CHR ''1'' # ''.0.0'',
                message = Some ''invalid fragment: bogus'', success = Some False\<rparr>, ?f)"
    by (rule path [OF conjI [OF fetched(1) conjI [OF token(1) parsed(1)]],
          THEN conjunct1, THEN mp, OF raised])
  then have upd1: "update ?d ?o ?r1 ?f = (Inr ?o1, ?f)"
    by (simp add: urls)
  \<comment> \<open>second reference: no compatible version\<close>
  obtain flt where filter: "fragment ?d (url (relocate ?r2 (CHR ''1'') ''.0.0''))
               (version_fn (relocate ?r2 (CHR ''1'') ''.0.0'')
                  (url (relocate ?r2 (CHR ''1'') ''.0.0''))) = Inr flt"
    and none: "chooseVersion ?d flt (candidates ?d (CHR ''1'' # ''.0.0'') ?vs) = Inl ()"
  proof -
    have "case fragment ?d (url (relocate ?r2 (CHR ''1'') ''.0.0''))
               (version_fn (relocate ?r2 (CHR ''1'') ''.0.0'')
                  (url (relocate ?r2 (CHR ''1'') ''.0.0''))) of
            Inl e \<Rightarrow> False
          | Inr flt \<Rightarrow> chooseVersion ?d flt (candidates ?d (CHR ''1'' # ''.0.0'') ?vs) = Inl ()"
      by code_simp
    then show ?thesis
      using that by (auto split: sum.splits)
  qed
  have "update ?d ?o ?r2 ?f =
          (Inr \<lparr>initUrl = url ?r2, initVersion = CHR ''1'' # ''.0.0'',
                message = Some ''no compatible version found'', success = Some False\<rparr>, ?f)"
    by (rule path [OF conjI [OF fetched(2) conjI [OF token(2) parsed(2)]],
          THEN conjunct2, THEN conjunct1, THEN mp, OF conjI [OF filter none]])
  then have upd2: "update ?d ?o ?r2 ?f = (Inr ?o2, ?f)"
    by (simp add: urls)
  \<comment> \<open>third reference: validation failure\<close>
  have "case fragment ?d (url (relocate ?r3 (CHR ''1'') ''.0.0''))
               (version_fn (relocate ?r3 (CHR ''1'') ''.0.0'')
                  (url (relocate ?r3 (CHR ''1'') ''.0.0''))) of
          Inl e \<Rightarrow> False | Inr None \<Rightarrow> True | Inr (Some f) \<Rightarrow> False"
    by code_simp
  then have no_filter: "fragment ?d (url (relocate ?r3 (CHR ''1'') ''.0.0''))
               (version_fn (relocate ?r3 (CHR ''1'') ''.0.0'')
                  (url (relocate ?r3 (CHR ''1'') ''.0.0''))) = Inr None"
    by (simp split: sum.splits option.splits)
  have chosen: "chooseVersion ?d None (candidates ?d (CHR ''1'' # ''.0.0'') ?vs)
                = Inr (Some ''1.4.2'')"
    by code_simp
  have target: "Some ''1.4.2'' = (case newFragmentToken ?r3 (CHR ''1'') of
                   None \<Rightarrow> Some ''1.4.2''
                 | Some t \<Rightarrow> Some (t @ js_string (Some ''1.4.2'')))"
    by code_simp
  have new_url: "foo_at ''1.4.2'' = at_fn (relocate ?r3 (CHR ''1'') ''.0.0'')
                   (url (relocate ?r3 (CHR ''1'') ''.0.0'')) (Some ''1.4.2'')"
    by code_simp
  have changed: "\<not> (Some (version_fn (relocate ?r3 (CHR ''1'') ''.0.0'')
                          (url (relocate ?r3 (CHR ''1'') ''.0.0''))) = Some ''1.4.2''
                   \<and> newFragmentToken ?r3 (CHR ''1'') = None)"
    by code_simp
  have real: "\<not> dryRun ?o"
    by (simp add: rejecting_opts_def)
  have rejects: "this_test ?o (replace (url ?r3) (foo_at ''1.4.2'') ?f) = Rejects"
    by (simp add: this_test_def rejecting_opts_def)
  have "update ?d ?o ?r3 ?f =
          (Inr \<lparr>initUrl = url ?r3, initVersion = CHR ''1'' # ''.0.0'',
                message = Some (js_string (Some ''1.4.2'') @
                            yellow ?d (case newFragmentToken ?r3 (CHR ''1'') of
                                         None \<Rightarrow> [] | Some t \<Rightarrow> ''#'' @ t)),
                success = Some False\<rparr>,
           replace (foo_at ''1.4.2'') (url ?r3) (replace (url ?r3) (foo_at ''1.4.2'') ?f))"
    by (rule path [OF conjI [OF fetched(3) conjI [OF token(3) parsed(3)]],
          THEN conjunct2, THEN conjunct2, THEN mp,
          OF conjI [OF no_filter conjI [OF chosen conjI [OF target conjI [OF new_url
            conjI [OF changed conjI [OF real rejects]]]]]]])
  moreover have "(Inr \<lparr>initUrl = url ?r3, initVersion = CHR ''1'' # ''.0.0'',
                message = Some (js_string (Some ''1.4.2'') @
                            yellow ?d (case newFragmentToken ?r3 (CHR ''1'') of
                                         None \<Rightarrow> [] | Some t \<Rightarrow> ''#'' @ t)),
                success = Some False\<rparr>,
           replace (foo_at ''1.4.2'') (url ?r3) (replace (url ?r3) (foo_at ''1.4.2'') ?f))
        = (Inr ?o3 :: error + UddResult, ?f)"
    by code_simp
  ultimately have upd3: "update ?d ?o ?r3 ?f = (Inr ?o3, ?f)"
    by (rule trans)
  \<comment> \<open>the loop records all three outcomes\<close>
  have loop3: "run_loop ?d ?o [?u3] [] ?f = (Inr [?o3], ?f)"
    using step [OF conjI [OF found(3) upd3], of "[]" "[]"] base [of ?d ?o "[]" ?f]
    by simp
  have loop2: "run_loop ?d ?o [?u2, ?u3] [] ?f = (Inr [?o2, ?o3], ?f)"
    using step [OF conjI [OF found(2) upd2], of "[?u3]" "[]"] loop3
    by simp
  have loop1: "run_loop ?d ?o [?u1, ?u2, ?u3] [] ?f = (Inr [?o1, ?o2, ?o3], ?f)"
    using step [OF conjI [OF found(1) upd1], of "[?u2, ?u3]" "[]"] loop2
    by simp
  show "run ?d ?o ?f = (Inr [?o1, ?o2, ?o3], ?f)"
    using loop1 by (simp add: run_def scan)
qed

subsection \<open>Dry run\<close>

text \<open>
  Claim C8: with \<open>dryRun\<close> set, the file after \<open>run\<close> is the file before \<open>run\<close>,
  whether the run completes or raises; the result does not depend on the validation
  callback (it is never called); and the outcomes are those of a real run whose validation
  always succeeds, so resolution proceeds as usual.
\<close>

theorem dry_run_never_writes:
  assumes "dryRun opts"
  shows "snd (run d opts content) = content
     \<and> run d (opts\<lparr>test := t\<rparr>) content = run d opts content
     \<and> fst (run d opts content) = fst (run d \<lparr>dryRun = False, test = None\<rparr> content)"
  using run_loop_dry_run [OF assms] run_loop_dry_outcomes [OF assms]
  by (simp add: run_def)

text \<open>Witness: a dry run of scenario B reports the target and leaves the file alone.\<close>

theorem dry_run_never_writes_witness:
  "run (spec_deps published_B) dry_opts (import_line (foo_at ''^1.0.0''))
   = (Inr [\<lparr>initUrl = foo_at ''^1.0.0'', initVersion = ''^1.0.0'',
            message = Some (''^1.4.2'' @ ansi_yellow ''#^''), success = Some True\<rparr>],
      import_line (foo_at ''^1.0.0''))"
proof -
  have dry: "dryRun dry_opts"
    by (simp add: dry_opts_def)
  have outcomes: "fst (run (spec_deps published_B) \<lparr>dryRun = False, test = None\<rparr>
                         (import_line (foo_at ''^1.0.0'')))
        = Inr [\<lparr>initUrl = foo_at ''^1.0.0'', initVersion = ''^1.0.0'',
                message = Some (''^1.4.2'' @ ansi_yellow ''#^''), success = Some True\<rparr>]"
    by code_simp
  show ?thesis
    using dry_run_never_writes [OF dry, of "spec_deps published_B" "import_line (foo_at ''^1.0.0'')"]
      outcomes
    by (simp add: prod_eq_iff)
qed

end
